theory Spec2Isabelle
  imports Complex_Main "HOL-Library.Char_ord" "HOL-Library.List_Lexorder"
begin

section \<open>A benchmark harness for sparse direct solvers (solver.py)\<close>

text \<open>
  The program loads Matrix Market files, builds a right-hand side for the all-ones
  solution, calls one of three external sparse solvers, and logs one row per solve.

  Modelling decisions.
  \<^item> Python exceptions are values of \<open>exn\<close>; a function that can raise returns
    \<open>exn + 'a\<close> with \<open>Inl\<close> for the exception.
  \<^item> The external libraries (scipy, pypardiso, glob, platform, csv, time) are opaque
    capabilities: they are fields of the record \<open>env\<close>. An exception that a library
    raises of its own and the program does not catch is \<open>LibraryError\<close>, with the
    library's description of it.
  \<^item> What the program changes is the record \<open>world\<close>: the text files it writes, the
    lines still unread on standard input, the number of clock readings taken and
    the trace of input/output calls made so far (\<open>events\<close>, oldest first).
  \<^item> IEEE floating point numbers are idealised as reals: rounding, infinities and
    NaN are outside the model.
  \<^item> Console output (\<open>print\<close>) and garbage collection are not modelled.
\<close>

subsection \<open>Exceptions and the data model\<close>

datatype exn =
    ValueError string
  | KeyError string
  | UnboundLocalError string
  | InvalidMatrixFormat
  | MemoryError
  | EOFError
  | LibraryError string

datatype layout = COO | CSR | CSC

text \<open>A sparse matrix: its shape, its stored entries (row, column, value) and the
  storage layout it is held in. Indices count from 0.\<close>

record matrix =
  nrows :: nat
  ncols :: nat
  entries :: "(nat \<times> nat \<times> real) list"
  layout :: layout

type_synonym vec = "real list"

text \<open>The dictionary returned by \<open>solve_with_profiling\<close>.\<close>

record run_result =
  matrix_name :: string
  matrix_type :: string
  matrix_dimensions :: string
  start_time :: real
  end_time :: real
  relative_error :: real
  solver_library :: string
  umfpack_error :: int

text \<open>The dictionary \<open>row\<close> that \<open>log_results\<close> hands to the CSV writer, keyed by
  the CSV field names.\<close>

record csv_row =
  row_matrix :: string
  row_dimensions :: string
  row_type :: string
  row_start_time :: real
  row_end_time :: real
  row_rel_error :: real
  row_system :: string
  row_library :: string
  row_umfpack_error :: int

text \<open>What a call of an external solve routine does: it returns a solution, raises
  \<open>MemoryError\<close>, or raises something else.\<close>

datatype solve_outcome = Solved vec | OutOfMemory | Raised string

datatype event =
    MMRead string
  | SpSolve string matrix vec
  | FileWrite string
  | FileAppend string

record env =
  mmread :: "string \<Rightarrow> string + matrix"
  pypardiso_spsolve :: "matrix \<Rightarrow> vec \<Rightarrow> solve_outcome"
  scipy_spsolve :: "bool \<Rightarrow> matrix \<Rightarrow> vec \<Rightarrow> solve_outcome"
  time_time :: "nat \<Rightarrow> real"
  platform_system :: string
  glob_glob :: "string \<Rightarrow> string list"
  csv_writerow :: "csv_row \<Rightarrow> string"

record world =
  files :: "string \<Rightarrow> string option"
  stdin :: "string list"
  time_calls :: nat
  events :: "event list"

definition emit :: "event \<Rightarrow> world \<Rightarrow> world" where
  "emit ev w = w\<lparr>events := events w @ [ev]\<rparr>"

text \<open>\<open>time.time()\<close>: the next reading of the clock.\<close>

definition time_now :: "env \<Rightarrow> world \<Rightarrow> real \<times> world" where
  "time_now e w = (time_time e (time_calls w), w\<lparr>time_calls := Suc (time_calls w)\<rparr>)"

subsection \<open>Strings\<close>

definition digit_char :: "nat \<Rightarrow> char" where
  "digit_char d = ''0123456789'' ! d"

function string_of_nat :: "nat \<Rightarrow> string" where
  "string_of_nat n =
     (if n < 10 then [digit_char n] else string_of_nat (n div 10) @ [digit_char (n mod 10)])"
  by pat_completeness auto
termination
  by (relation "measure id") auto

declare string_of_nat.simps [simp del]

definition string_of_int :: "int \<Rightarrow> string" where
  "string_of_int i = (if i < 0 then CHR ''-'' # string_of_nat (nat (- i)) else string_of_nat (nat i))"

text \<open>\<open>s.split(c)\<close> for a one-character separator: never empty.\<close>

fun split_on :: "char \<Rightarrow> string \<Rightarrow> string list" where
  "split_on c [] = [[]]"
| "split_on c (x # xs) =
     (if x = c then [] # split_on c xs
      else (case split_on c xs of
              [] \<Rightarrow> [[x]]
            | p # ps \<Rightarrow> (x # p) # ps))"

text \<open>\<open>sep.join(xs)\<close>.\<close>

fun join :: "string \<Rightarrow> string list \<Rightarrow> string" where
  "join sep [] = []"
| "join sep [x] = x"
| "join sep (x # y # ys) = x @ sep @ join sep (y # ys)"

subsection \<open>MatrixLoader: \<open>load_matrix\<close>\<close>

definition tocsr :: "matrix \<Rightarrow> matrix" where
  "tocsr m = m\<lparr>layout := CSR\<rparr>"

definition tocsc :: "matrix \<Rightarrow> matrix" where
  "tocsc m = m\<lparr>layout := CSC\<rparr>"

text \<open>\<open>sio.mmread(path)\<close>: the read is recorded in the trace, whether or not it
  succeeds; a failure (a missing or malformed file) is the library's exception.\<close>

definition sio_mmread :: "env \<Rightarrow> string \<Rightarrow> world \<Rightarrow> (exn + matrix) \<times> world" where
  "sio_mmread e path w =
     (case mmread e path of
        Inl msg \<Rightarrow> (Inl (LibraryError msg), emit (MMRead path) w)
      | Inr m \<Rightarrow> (Inr m, emit (MMRead path) w))"

definition load_matrix_msg :: "string \<Rightarrow> string" where
  "load_matrix_msg matrix_format =
     ''Invalid argument matrix_format. Should be one of 'csr', 'csc', got ''
       @ matrix_format @ '' instead.''"

definition load_matrix :: "env \<Rightarrow> string \<Rightarrow> string \<Rightarrow> world \<Rightarrow> (exn + matrix) \<times> world" where
  "load_matrix e path matrix_format w =
     (if matrix_format = ''csr'' then
        (case sio_mmread e path w of
           (Inl err, w') \<Rightarrow> (Inl err, w')
         | (Inr m, w') \<Rightarrow> (Inr (tocsr m), w'))
      else if matrix_format = ''csc'' then
        (case sio_mmread e path w of
           (Inl err, w') \<Rightarrow> (Inl err, w')
         | (Inr m, w') \<Rightarrow> (Inr (tocsc m), w'))
      else (Inl (ValueError (load_matrix_msg matrix_format)), w))"

subsection \<open>ProblemBuilder: \<open>create_b\<close>\<close>

text \<open>\<open>np.ones((n, 1))\<close>, a column of ones.\<close>

definition np_ones :: "nat \<Rightarrow> vec" where
  "np_ones n = replicate n 1"

text \<open>Row \<open>i\<close> of the sparse product \<open>matrix @ x\<close>: the stored entries of row \<open>i\<close>,
  each times the component of \<open>x\<close> at its column, summed.\<close>

definition row_dot :: "matrix \<Rightarrow> vec \<Rightarrow> nat \<Rightarrow> real" where
  "row_dot m x i = sum_list (map (\<lambda>(r, c, v). v * x ! c) (filter (\<lambda>(r, c, v). r = i) (entries m)))"

definition matmul :: "matrix \<Rightarrow> vec \<Rightarrow> vec" where
  "matmul m x = map (row_dot m x) [0..<nrows m]"

definition create_b :: "matrix \<Rightarrow> vec" where
  "create_b m = (let xe = np_ones (ncols m); b = matmul m xe in b)"

text \<open>A matrix as a Matrix Market file gives it: every entry lies inside the shape.\<close>

definition in_shape :: "matrix \<Rightarrow> bool" where
  "in_shape m = list_all (\<lambda>(r, c, v). r < nrows m \<and> c < ncols m) (entries m)"

subsection \<open>Accuracy: \<open>get_relative_error\<close>\<close>

text \<open>\<open>xe - x\<close> on one-dimensional arrays, with numpy's broadcasting: equal lengths
  subtract componentwise, an array of length one is stretched, any other pair of
  lengths raises \<open>ValueError\<close>.\<close>

definition np_subtract :: "vec \<Rightarrow> vec \<Rightarrow> exn + vec" where
  "np_subtract xe x =
     (if length xe = length x then Inr (map (\<lambda>(a, b). a - b) (zip xe x))
      else if length xe = 1 then Inr (map (\<lambda>b. hd xe - b) x)
      else if length x = 1 then Inr (map (\<lambda>a. a - hd x) xe)
      else Inl (ValueError ''operands could not be broadcast together''))"

text \<open>\<open>np.linalg.norm(v, ord=2)\<close> of a one-dimensional array.\<close>

definition np_norm2 :: "vec \<Rightarrow> real" where
  "np_norm2 v = sqrt (sum_list (map (\<lambda>a. \<bar>a\<bar> * \<bar>a\<bar>) v))"

definition get_relative_error :: "vec \<Rightarrow> vec \<Rightarrow> exn + real" where
  "get_relative_error xe x =
     (case np_subtract xe x of
        Inl err \<Rightarrow> Inl err
      | Inr d \<Rightarrow> Inr (np_norm2 d / np_norm2 xe))"

subsection \<open>SolverAdapter: \<open>solve_with_profiling\<close>\<close>

text \<open>The format string of the last branch holds the set of accepted names written
  in braces. \<open>str.format\<close> reads the braces as a replacement field whose name is the
  text between them, finds no keyword argument of that name and raises \<open>KeyError\<close>
  with it: the \<open>ValueError\<close> is never constructed.\<close>

definition wrong_library_key :: string where
  "wrong_library_key = CHR 0x27 # ''mkl', 'umfpack', 'superlu'' @ [CHR 0x27]"

text \<open>The branch on \<open>solver_library\<close> (the first part of \<open>solve_with_profiling\<close>): it
  yields \<open>start_time\<close>, \<open>end_time\<close>, the solution \<open>x\<close> when it was assigned, and
  \<open>umfpack_mem_error\<close>.\<close>

definition call_backend ::
  "env \<Rightarrow> string \<Rightarrow> matrix \<Rightarrow> vec \<Rightarrow> world \<Rightarrow> (exn + real \<times> real \<times> vec option \<times> bool) \<times> world" where
  "call_backend e solver_lib A b w =
     (if solver_lib = ''mkl'' then
        (let (start, w1) = time_now e w;
             w2 = emit (SpSolve ''mkl'' A b) w1
         in case pypardiso_spsolve e A b of
              Solved x \<Rightarrow>
                (let (end, w3) = time_now e w2
                 in (Inr (start, end, Some x, False), w3))
            | OutOfMemory \<Rightarrow> (Inl MemoryError, w2)
            | Raised msg \<Rightarrow> (Inl (LibraryError msg), w2))
      else if solver_lib = ''superlu'' then
        (let (start, w1) = time_now e w;
             w2 = emit (SpSolve ''superlu'' A b) w1
         in case scipy_spsolve e False A b of
              Solved x \<Rightarrow>
                (let (end, w3) = time_now e w2
                 in (Inr (start, end, Some x, False), w3))
            | OutOfMemory \<Rightarrow> (Inl MemoryError, w2)
            | Raised msg \<Rightarrow> (Inl (LibraryError msg), w2))
      else if solver_lib = ''umfpack'' then
        (let (start, w1) = time_now e w;
             w2 = emit (SpSolve ''umfpack'' A b) w1
         in case scipy_spsolve e True A b of
              Solved x \<Rightarrow>
                (let (end, w3) = time_now e w2
                 in (Inr (start, end, Some x, False), w3))
            | OutOfMemory \<Rightarrow>
                (let (end, w3) = time_now e w2
                 in (Inr (start, end, None, True), w3))
            | Raised msg \<Rightarrow> (Inl (LibraryError msg), w2))
      else (Inl (KeyError wrong_library_key), w))"

text \<open>\<open>get_relative_error(xe, x) if not umfpack_mem_error else -1\<close>: \<open>x\<close> is read
  only when the flag is off. (Below, the parameters \<open>matrix_name\<close>, \<open>matrix_type\<close> and
  \<open>solver_library\<close> of the source are written \<open>name\<close>, \<open>mtype\<close> and \<open>solver_lib\<close>: the
  longer names are the fields of the result.)\<close>

definition relative_error_of :: "vec \<Rightarrow> vec option \<Rightarrow> bool \<Rightarrow> exn + real" where
  "relative_error_of xe x umfpack_mem_error =
     (if \<not> umfpack_mem_error then
        (case x of
           None \<Rightarrow> Inl (UnboundLocalError ''x'')
         | Some x' \<Rightarrow> get_relative_error xe x')
      else Inr (- 1))"

definition solve_with_profiling ::
  "env \<Rightarrow> matrix \<Rightarrow> vec \<Rightarrow> string \<Rightarrow> string \<Rightarrow> string \<Rightarrow> world \<Rightarrow> (exn + run_result) \<times> world" where
  "solve_with_profiling e A b name mtype solver_lib w =
     (case call_backend e solver_lib A b w of
        (Inl err, w') \<Rightarrow> (Inl err, w')
      | (Inr (start, end, x, umfpack_mem_error), w') \<Rightarrow>
          (let xe = np_ones (ncols A)
           in case relative_error_of xe x umfpack_mem_error of
                Inl err \<Rightarrow> (Inl err, w')
              | Inr rel \<Rightarrow>
                  (Inr \<lparr>matrix_name = name,
                        matrix_type = mtype,
                        matrix_dimensions = string_of_nat (nrows A) @ ''x'' @ string_of_nat (ncols A),
                        start_time = start,
                        end_time = end,
                        relative_error = rel,
                        solver_library = solver_lib,
                        umfpack_error = (if umfpack_mem_error then 1 else 0)\<rparr>, w')))"

subsection \<open>BenchmarkRunner: \<open>main\<close>\<close>

text \<open>The load step of an iteration. \<open>A\<close> is unbound when the iteration starts (it is
  deleted at the end of each iteration), and stays unbound when no branch is taken.\<close>

definition load_step :: "env \<Rightarrow> string \<Rightarrow> string \<Rightarrow> world \<Rightarrow> (exn + matrix option) \<times> world" where
  "load_step e library path w =
     (if library = ''mkl'' then
        (case load_matrix e path ''csr'' w of
           (Inl err, w') \<Rightarrow> (Inl err, w')
         | (Inr A, w') \<Rightarrow> (Inr (Some A), w'))
      else if library = ''umfpack'' \<or> library = ''superlu'' then
        (case load_matrix e path ''csc'' w of
           (Inl err, w') \<Rightarrow> (Inl err, w')
         | (Inr A, w') \<Rightarrow> (Inr (Some A), w'))
      else (Inr None, w))"

text \<open>The body of the inner loop for one path: the run result to append, or the
  exception that leaves \<open>main\<close>. Reading \<open>A.shape\<close> for the progress message is where an
  unbound \<open>A\<close> raises.\<close>

definition iteration :: "env \<Rightarrow> string \<Rightarrow> string \<Rightarrow> string \<Rightarrow> world \<Rightarrow> (exn + run_result) \<times> world" where
  "iteration e mtype library path w =
     (let name = last (split_on CHR ''/'' path)
      in case load_step e library path w of
           (Inl err, w1) \<Rightarrow> (Inl err, w1)
         | (Inr None, w1) \<Rightarrow> (Inl (UnboundLocalError ''A''), w1)
         | (Inr (Some A), w1) \<Rightarrow>
             (let b = create_b A
              in solve_with_profiling e A b name mtype library w1))"

text \<open>The inner loop over the paths, and the outer loop over the runs.\<close>

fun for_matrices ::
  "env \<Rightarrow> string \<Rightarrow> string \<Rightarrow> string list \<Rightarrow> run_result list \<Rightarrow> world \<Rightarrow> (exn + run_result list) \<times> world" where
  "for_matrices e mtype library [] results w = (Inr results, w)"
| "for_matrices e mtype library (path # paths) results w =
     (case iteration e mtype library path w of
        (Inl err, w') \<Rightarrow> (Inl err, w')
      | (Inr result, w') \<Rightarrow> for_matrices e mtype library paths (results @ [result]) w')"

fun for_runs ::
  "env \<Rightarrow> string list \<Rightarrow> string \<Rightarrow> string \<Rightarrow> nat \<Rightarrow> run_result list \<Rightarrow> world \<Rightarrow> (exn + run_result list) \<times> world" where
  "for_runs e matrices mtype library 0 results w = (Inr results, w)"
| "for_runs e matrices mtype library (Suc n) results w =
     (case for_matrices e mtype library matrices results w of
        (Inl err, w') \<Rightarrow> (Inl err, w')
      | (Inr results', w') \<Rightarrow> for_runs e matrices mtype library n results' w')"

text \<open>\<open>range(num_runs)\<close> is empty for a count below one.\<close>

definition main ::
  "env \<Rightarrow> string list \<Rightarrow> string \<Rightarrow> string \<Rightarrow> int \<Rightarrow> world \<Rightarrow> (exn + run_result list) \<times> world" where
  "main e matrices mtype library num_runs w =
     for_runs e matrices mtype library (nat num_runs) [] w"

subsection \<open>ResultLogger: \<open>log_results\<close>\<close>

text \<open>The two kinds of Python object that meet in the comparison
  \<open>platform.system == 'Linux'\<close>: a string, and a function object (named by its
  qualified name). \<open>==\<close> compares two strings by their text and two function objects
  by identity; a function object and a string are never equal.\<close>

datatype pyobj = PyStr string | PyFunction string

fun py_eq :: "pyobj \<Rightarrow> pyobj \<Rightarrow> bool" where
  "py_eq (PyStr a) (PyStr b) = (a = b)"
| "py_eq (PyFunction f) (PyFunction g) = (f = g)"
| "py_eq (PyStr a) (PyFunction g) = False"
| "py_eq (PyFunction f) (PyStr b) = False"

text \<open>The source compares the function \<open>platform.system\<close> itself, not the string
  that calling it returns (\<open>platform_system e\<close>).\<close>

definition system_type :: "env \<Rightarrow> string" where
  "system_type e =
     (if py_eq (PyFunction ''platform.system'') (PyStr ''Linux'') then ''ubuntu'' else ''windows'')"

definition csv_fields :: "string list" where
  "csv_fields =
     [''matrix'', ''dimensions'', ''type'', ''start_time'', ''end_time'', ''rel_error'',
      ''system'', ''library'', ''umfpack_error'']"

definition header_line :: string where
  "header_line = join '','' csv_fields @ [CHR 0x0A]"

definition log_path :: "string \<Rightarrow> string \<Rightarrow> string" where
  "log_path system filename = ''./'' @ system @ ''-'' @ filename @ ''.csv''"

definition is_file :: "world \<Rightarrow> string \<Rightarrow> bool" where
  "is_file w p = (files w p \<noteq> None)"

text \<open>\<open>open(p, 'w')\<close> followed by one \<open>write\<close>: the file holds the text alone.\<close>

definition write_file :: "string \<Rightarrow> string \<Rightarrow> world \<Rightarrow> world" where
  "write_file p s w = emit (FileWrite p) (w\<lparr>files := (files w)(p \<mapsto> s)\<rparr>)"

text \<open>\<open>open(p, 'a')\<close> followed by writes: the text goes after what the file holds; a
  missing file is created.\<close>

definition append_file :: "string \<Rightarrow> string \<Rightarrow> world \<Rightarrow> world" where
  "append_file p s w =
     emit (FileAppend p)
       (w\<lparr>files := (files w)(p \<mapsto> (case files w p of None \<Rightarrow> s | Some old \<Rightarrow> old @ s))\<rparr>)"

definition make_row :: "string \<Rightarrow> run_result \<Rightarrow> csv_row" where
  "make_row system result =
     \<lparr>row_matrix = matrix_name result,
      row_dimensions = matrix_dimensions result,
      row_type = matrix_type result,
      row_start_time = start_time result,
      row_end_time = end_time result,
      row_rel_error = relative_error result,
      row_system = system,
      row_library = solver_library result,
      row_umfpack_error = umfpack_error result\<rparr>"

text \<open>The text that the CSV writer puts out for the results, one row after the other.\<close>

definition rows_text :: "env \<Rightarrow> string \<Rightarrow> run_result list \<Rightarrow> string" where
  "rows_text e system results = concat (map (csv_writerow e) (map (make_row system) results))"

definition log_results :: "env \<Rightarrow> run_result list \<Rightarrow> string \<Rightarrow> world \<Rightarrow> world" where
  "log_results e results filename w =
     (if results = [] then w
      else
        (let system = system_type e;
             filepath = log_path system filename;
             w1 = (if \<not> is_file w filepath then write_file filepath header_line w else w)
         in append_file filepath (rows_text e system results) w1))"

subsection \<open>The script\<close>

text \<open>\<open>int(s)\<close> on ASCII text: surrounding white space is dropped, a sign may come
  first, then decimal digits, where single underscores may stand between digits.\<close>

definition is_space :: "char \<Rightarrow> bool" where
  "is_space c = (c = CHR '' '' \<or> (9 \<le> (of_char c :: nat) \<and> (of_char c :: nat) \<le> 13))"

definition strip :: "string \<Rightarrow> string" where
  "strip s = rev (dropWhile is_space (rev (dropWhile is_space s)))"

definition digit_of :: "char \<Rightarrow> nat option" where
  "digit_of c =
     (let n = (of_char c :: nat) in if 48 \<le> n \<and> n \<le> 57 then Some (n - 48) else None)"

fun digits_value :: "nat \<Rightarrow> bool \<Rightarrow> string \<Rightarrow> nat option" where
  "digits_value acc after_digit [] = (if after_digit then Some acc else None)"
| "digits_value acc after_digit (c # cs) =
     (if c = CHR ''_'' then
        (if after_digit \<and> cs \<noteq> [] then digits_value acc False cs else None)
      else
        (case digit_of c of
           None \<Rightarrow> None
         | Some d \<Rightarrow> digits_value (10 * acc + d) True cs))"

definition py_int :: "string \<Rightarrow> int option" where
  "py_int s =
     (case strip s of
        [] \<Rightarrow> None
      | c # cs \<Rightarrow>
          (if c = CHR ''-'' then map_option (\<lambda>n. - int n) (digits_value 0 False cs)
           else if c = CHR ''+'' then map_option int (digits_value 0 False cs)
           else map_option int (digits_value 0 False (c # cs))))"

text \<open>The loop around \<open>input\<close>: it reads lines until one is \<open>y\<close>. Standard input is a
  finite sequence of lines, and \<open>input\<close> raises \<open>EOFError\<close> at its end.\<close>

fun wait_ready :: "string list \<Rightarrow> exn + string list" where
  "wait_ready [] = Inl EOFError"
| "wait_ready (user_is_ready # rest) =
     (if user_is_ready = ''y'' then Inr rest else wait_ready rest)"

definition library_msg :: "string \<Rightarrow> string" where
  "library_msg library =
     ''Accepted values for library are: 'mkl', 'superlu', 'umfpack', got '' @ library @ '' instead.''"

definition runs_msg :: "int \<Rightarrow> string" where
  "runs_msg n_runs = ''Number of runs must be >= 1, got '' @ string_of_int n_runs @ '' instead''"

definition usage_msg :: string where
  "usage_msg =
     ''Please, provide a choice for the solver library an run number:you should call this script as 'python scratch.py solver runs' where solver is {'mkl', 'superlu', 'umfpack'} and runs an integer > 0.''"

definition int_msg :: "string \<Rightarrow> string" where
  "int_msg s = ''invalid literal for int() with base 10: '' @ s"

text \<open>The part of the script after the arguments are accepted.\<close>

definition benchmark :: "env \<Rightarrow> string \<Rightarrow> int \<Rightarrow> world \<Rightarrow> (exn + unit) \<times> world" where
  "benchmark e library n_runs w =
     (case wait_ready (stdin w) of
        Inl err \<Rightarrow> (Inl err, w\<lparr>stdin := []\<rparr>)
      | Inr rest \<Rightarrow>
          (let w0 = w\<lparr>stdin := rest\<rparr>;
               symmetric_matrices = sort (glob_glob e ''./data/matrici_def_pos/*.mtx'')
           in case main e symmetric_matrices ''def_pos'' library n_runs w0 of
                (Inl err, w1) \<Rightarrow> (Inl err, w1)
              | (Inr results_sdf, w1) \<Rightarrow>
                  (let unsym_matrices = sort (glob_glob e ''./data/matrici_non_def_pos/*.mtx'')
                   in case main e unsym_matrices ''non_def_pos'' library n_runs w1 of
                        (Inl err, w2) \<Rightarrow> (Inl err, w2)
                      | (Inr results_unsym, w2) \<Rightarrow>
                          (Inr (),
                           log_results e results_unsym ''python-result-log''
                             (log_results e results_sdf ''python-result-log'' w2)))))"

definition script :: "env \<Rightarrow> string list \<Rightarrow> world \<Rightarrow> (exn + unit) \<times> world" where
  "script e argv w =
     (if length argv = 3 then
        (let library = argv ! 1
         in if library \<notin> {''umfpack'', ''superlu'', ''mkl''} then
              (Inl (ValueError (library_msg library)), w)
            else
              (case py_int (argv ! 2) of
                 None \<Rightarrow> (Inl (ValueError (int_msg (argv ! 2))), w)
               | Some n_runs \<Rightarrow>
                   (if \<not> (n_runs \<ge> 1) then (Inl (ValueError (runs_msg n_runs)), w)
                    else benchmark e library n_runs w)))
      else (Inl (ValueError usage_msg), w))"

subsection \<open>A small instance\<close>

text \<open>Two matrix files of three rows and columns, the identity and twice the identity;
  every other path does not exist. The solvers divide by the first stored entry (both
  matrices are multiples of the identity), except that the UMFPACK routine runs out of
  memory on the second matrix.\<close>

definition eye3 :: matrix where
  "eye3 = \<lparr>nrows = 3, ncols = 3, entries = [(0, 0, 1), (1, 1, 1), (2, 2, 1)], layout = COO\<rparr>"

definition two3 :: matrix where
  "two3 = \<lparr>nrows = 3, ncols = 3, entries = [(0, 0, 2), (1, 1, 2), (2, 2, 2)], layout = COO\<rparr>"

definition scalar_solve :: "matrix \<Rightarrow> vec \<Rightarrow> solve_outcome" where
  "scalar_solve A b = Solved (map (\<lambda>v. v / (case hd (entries A) of (r, c, d) \<Rightarrow> d)) b)"

definition demo_env :: env where
  "demo_env =
     \<lparr>mmread = (\<lambda>p. if p = ''data/eye3.mtx'' then Inr eye3
                     else if p = ''data/two3.mtx'' then Inr two3
                     else Inl ''FileNotFoundError''),
      pypardiso_spsolve = scalar_solve,
      scipy_spsolve = (\<lambda>use_umfpack A b.
         if use_umfpack \<and> entries A = entries two3 then OutOfMemory else scalar_solve A b),
      time_time = (\<lambda>n. real n),
      platform_system = ''Linux'',
      glob_glob = (\<lambda>pat. []),
      csv_writerow = (\<lambda>r. row_matrix r @ '','' @ row_library r @ [CHR 0x0D, CHR 0x0A])\<rparr>"

definition world0 :: world where
  "world0 = \<lparr>files = Map.empty, stdin = [], time_calls = 0, events = []\<rparr>"

definition demo_result :: run_result where
  "demo_result =
     \<lparr>matrix_name = ''eye3.mtx'', matrix_type = ''def_pos'', matrix_dimensions = ''3x3'',
      start_time = 0, end_time = 1, relative_error = 0, solver_library = ''superlu'',
      umfpack_error = 0\<rparr>"

subsection \<open>The vocabulary of the specification\<close>

text \<open>The coefficient of a matrix at a position: the stored entries at that position,
  summed (a Matrix Market file may list a position more than once).\<close>

definition coeff :: "matrix \<Rightarrow> nat \<Rightarrow> nat \<Rightarrow> real" where
  "coeff m i j = sum_list (map (\<lambda>(r, c, v). v) (filter (\<lambda>(r, c, v). r = i \<and> c = j) (entries m)))"

text \<open>The product of a matrix and a vector as linear algebra defines it: component \<open>i\<close>
  is the sum over the columns \<open>j\<close> of the coefficient at \<open>(i, j)\<close> times \<open>x j\<close>.\<close>

definition matrix_times_vector :: "matrix \<Rightarrow> vec \<Rightarrow> vec" where
  "matrix_times_vector m x =
     map (\<lambda>i. sum_list (map (\<lambda>j. coeff m i j * x ! j) [0..<ncols m])) [0..<nrows m]"


definition backend_outcome :: "env \<Rightarrow> string \<Rightarrow> matrix \<Rightarrow> vec \<Rightarrow> solve_outcome" where
  "backend_outcome e library A b =
     (if library = ''mkl'' then pypardiso_spsolve e A b
      else scipy_spsolve e (library = ''umfpack'') A b)"





text \<open>The two exceptions that an unknown backend name can cause: the unbound \<open>A\<close> in
  \<open>main\<close>, and the failure of the last branch of \<open>solve_with_profiling\<close>.\<close>

definition unknown_backend_error :: "exn \<Rightarrow> bool" where
  "unknown_backend_error err =
     (err = UnboundLocalError ''A'' \<or> err = KeyError wrong_library_key)"

section \<open>Properties\<close>

subsection \<open>Auxiliary facts\<close>

lemma system_type_windows: "system_type e = ''windows''"
  by (simp add: system_type_def)

lemma py_int_minus_five: "py_int ''-5'' = Some (- 5)"
  by (simp add: py_int_def strip_def is_space_def digit_of_def)

lemma py_int_zero: "py_int ''0'' = Some 0"
  by (simp add: py_int_def strip_def is_space_def digit_of_def)

subsection \<open>MatrixLoader\<close>

text \<open>
  Claim C4, as the code has it. For every layout argument other than \<open>csr\<close> and \<open>csc\<close>,
  \<open>load_matrix\<close> raises \<open>ValueError\<close> with a message naming the argument, and the world is
  as it was before the call: no file was read. (The exception class
  \<open>InvalidMatrixFormat\<close> that the program declares is never raised.)
\<close>

theorem load_matrix_rejects_layout:
  "matrix_format \<noteq> ''csr'' \<Longrightarrow> matrix_format \<noteq> ''csc'' \<Longrightarrow>
   load_matrix e path matrix_format w = (Inl (ValueError (load_matrix_msg matrix_format)), w)"
  by (simp add: load_matrix_def)

theorem load_matrix_rejects_layout_witness:
  "''coo'' \<noteq> ''csr'' \<and> ''coo'' \<noteq> ''csc'' \<and>
   load_matrix demo_env ''data/eye3.mtx'' ''coo'' world0 =
     (Inl (ValueError (load_matrix_msg ''coo'')), world0) \<and>
   events world0 = []"
  using load_matrix_rejects_layout [of "''coo''" demo_env "''data/eye3.mtx''" world0]
  by (simp add: world0_def)

text \<open>
  Claim C4 as stated fails: on the layout \<open>coo\<close> the exception raised is not
  \<open>InvalidMatrixFormat\<close>.
\<close>

theorem load_matrix_not_invalid_format:
  "fst (load_matrix demo_env ''data/eye3.mtx'' ''coo'' world0) \<noteq> Inl InvalidMatrixFormat"
  by (simp add: load_matrix_def)

subsection \<open>ResultLogger\<close>

text \<open>
  Claim C6. Called on an empty result sequence, \<open>log_results\<close> leaves the world as it
  was: no file is created, no file is changed, and no write is attempted.
\<close>

theorem log_results_empty_no_write: "log_results e [] filename w = w"
  by (simp add: log_results_def)

subsection \<open>The script\<close>

text \<open>
  Claim C9. When the second argument of the script reads as an integer below one, the
  script raises \<open>ValueError\<close> with a message, and the world is as it was before: nothing
  was read from standard input and no matrix file was read. The message names the count
  when the library name is accepted, and the library name otherwise.
\<close>

theorem script_rejects_nonpositive_runs:
  assumes "py_int s = Some n" and "n \<le> 0"
  shows "script e [prog, library, s] w =
     (Inl (ValueError (if library \<in> {''umfpack'', ''superlu'', ''mkl''} then runs_msg n
                        else library_msg library)), w)"
  using assms by (simp add: script_def)

theorem script_rejects_nonpositive_runs_witness:
  "py_int ''-5'' = Some (- 5) \<and> (- 5 :: int) \<le> 0 \<and>
   script demo_env [''solver.py'', ''umfpack'', ''-5''] world0 =
     (Inl (ValueError ''Number of runs must be >= 1, got -5 instead''), world0) \<and>
   events world0 = []"
  using script_rejects_nonpositive_runs
          [of "''-5''" "- 5" demo_env "''solver.py''" "''umfpack''" world0]
        py_int_minus_five
  by (simp add: runs_msg_def string_of_int_def string_of_nat.simps digit_char_def world0_def)

subsection \<open>Evaluating the small instance\<close>

lemmas demo_defs =
  demo_env_def scalar_solve_def world0_def eye3_def two3_def tocsc_def tocsr_def
  emit_def time_now_def np_ones_def create_b_def matmul_def row_dot_def

lemmas solve_defs =
  solve_with_profiling_def call_backend_def relative_error_of_def get_relative_error_def
  np_subtract_def np_norm2_def string_of_nat.simps digit_char_def Let_def

lemma demo_solve_superlu:
  "solve_with_profiling demo_env (tocsc eye3) (create_b (tocsc eye3)) ''eye3.mtx'' ''def_pos''
     ''superlu'' world0 =
   (Inr demo_result,
    world0\<lparr>time_calls := 2,
           events := [SpSolve ''superlu'' (tocsc eye3) (create_b (tocsc eye3))]\<rparr>)"
  by (simp add: solve_defs demo_defs demo_result_def upt_rec [of _ 3] eval_nat_numeral)



subsection \<open>ProblemBuilder\<close>

lemma sum_list_upt_delta:
  "c < n \<Longrightarrow> sum_list (map (\<lambda>j. (if c = j then (a::real) else 0) * f j) [0..<n]) = a * f c"
  by (simp add: interv_sum_list_conv_sum_set_nat if_distrib [of "\<lambda>t. t * _"] cong: if_cong)

text \<open>The entries of one row, each times its component of the vector, add up to the
  sum over the columns of coefficient times component, when every column index is in
  range.\<close>

lemma row_sum_by_columns:
  assumes "list_all (\<lambda>(r, c, v). c < n) es"
  shows "sum_list (map (\<lambda>(r, c, v). v * (x :: real list) ! c) (filter (\<lambda>(r :: nat, c, v). r = i) es)) =
         sum_list (map (\<lambda>j. sum_list (map (\<lambda>(r, c, v). v)
                               (filter (\<lambda>(r, c, v). r = i \<and> c = j) es)) * x ! j) [0..<n])"
  using assms
proof (induction es)
  case Nil
  then show ?case by simp
next
  case (Cons t es)
  obtain r c v where t: "t = (r, c, v)" by (cases t)
  from Cons.prems t have c: "c < n" and rest: "list_all (\<lambda>(r, c, v). c < n) es" by simp_all
  note IH = Cons.IH [OF rest]
  show ?case
  proof (cases "r = i")
    case False
    with t IH show ?thesis by simp
  next
    case True
    have "sum_list (map (\<lambda>j. sum_list (map (\<lambda>(r, c, v). v)
                     (filter (\<lambda>(r, c, v). r = i \<and> c = j) (t # es))) * x ! j) [0..<n])
        = sum_list (map (\<lambda>j. (if c = j then v else 0) * x ! j
                     + sum_list (map (\<lambda>(r, c, v). v)
                         (filter (\<lambda>(r, c, v). r = i \<and> c = j) es)) * x ! j) [0..<n])"
      using True t by (intro arg_cong [where f = sum_list] map_cong refl) (simp add: algebra_simps)
    also have "\<dots> = v * x ! c
        + sum_list (map (\<lambda>j. sum_list (map (\<lambda>(r, c, v). v)
                     (filter (\<lambda>(r, c, v). r = i \<and> c = j) es)) * x ! j) [0..<n])"
      using c by (simp add: sum_list_addf sum_list_upt_delta)
    finally show ?thesis using True t IH by simp
  qed
qed

lemma matmul_is_product: "in_shape m \<Longrightarrow> matmul m x = matrix_times_vector m x"
proof -
  assume "in_shape m"
  then have cols: "list_all (\<lambda>(r, c, v). c < ncols m) (entries m)"
    by (auto simp: in_shape_def list_all_iff)
  show ?thesis
    by (simp add: matmul_def matrix_times_vector_def row_dot_def coeff_def
          row_sum_by_columns [OF cols])
qed

text \<open>
  Claim C3. For a matrix whose entries lie inside its shape (as every loaded matrix
  has them), \<open>create_b\<close> returns the product of the matrix with the vector of
  \<open>ncols\<close> ones: component \<open>i\<close> is the sum over the columns of the coefficient at
  \<open>(i, j)\<close> times one. The result has one component per row, and, \<open>create_b\<close> being a
  function of the matrix alone, it depends on nothing else; it does not depend on the
  storage layout either, only on shape and entries.
\<close>

theorem create_b_is_matrix_times_ones:
  assumes "in_shape m"
  shows "create_b m = matrix_times_vector m (replicate (ncols m) 1) \<and>
         length (create_b m) = nrows m \<and>
         create_b (m\<lparr>layout := l\<rparr>) = create_b m"
proof -
  have "create_b m = matrix_times_vector m (replicate (ncols m) 1)"
    using assms by (simp add: create_b_def matmul_is_product np_ones_def)
  moreover have "length (create_b m) = nrows m"
    by (simp add: create_b_def matmul_def)
  moreover have "create_b (m\<lparr>layout := l\<rparr>) = create_b m"
    by (simp add: create_b_def matmul_def row_dot_def)
  ultimately show ?thesis by simp
qed

theorem create_b_is_matrix_times_ones_witness:
  "in_shape two3 \<and>
   create_b two3 = matrix_times_vector two3 (replicate (ncols two3) 1) \<and>
   create_b two3 = [2, 2, 2] \<and>
   create_b (two3\<lparr>layout := CSC\<rparr>) = create_b two3"
  using create_b_is_matrix_times_ones [of two3 CSC]
  by (simp add: in_shape_def two3_def create_b_def matmul_def row_dot_def np_ones_def
        upt_rec [of _ 3])

subsection \<open>SolverAdapter\<close>

lemma np_norm2_nonneg: "0 \<le> np_norm2 v"
  by (auto simp: np_norm2_def intro!: sum_list_nonneg)

lemma get_relative_error_nonneg: "get_relative_error xe x = Inr rel \<Longrightarrow> 0 \<le> rel"
  by (auto simp: get_relative_error_def np_norm2_nonneg split: sum.splits)

lemma call_backend_cases:
  assumes "call_backend e solver_lib A b w = (Inr (start, end, x, flag), w')"
  shows "(flag \<longrightarrow> solver_lib = ''umfpack'' \<and> x = None \<and> scipy_spsolve e True A b = OutOfMemory) \<and>
         (\<not> flag \<longrightarrow> (\<exists>x'. x = Some x' \<and> backend_outcome e solver_lib A b = Solved x'))"
  using assms
  by (auto simp: call_backend_def backend_outcome_def time_now_def Let_def
           split: if_splits solve_outcome.splits)

text \<open>
  Claim C8. In every run result that \<open>solve_with_profiling\<close> returns, the relative error
  is \<open>-1\<close> exactly when the failure flag is 1, and the flag is 0 or 1. When the flag is
  0, the relative error is the norm of the difference between the all-ones vector and
  the solution the backend returned, divided by the norm of the all-ones vector, and it
  is not negative.
\<close>

theorem sentinel_iff_failure_flag:
  assumes "solve_with_profiling e A b name mtype solver_lib w = (Inr r, w')"
  shows "(relative_error r = - 1 \<longleftrightarrow> umfpack_error r = 1) \<and>
         (umfpack_error r = 0 \<or> umfpack_error r = 1) \<and>
         (umfpack_error r = 0 \<longrightarrow>
            0 \<le> relative_error r \<and>
            (\<exists>x d. backend_outcome e solver_lib A b = Solved x \<and>
                   np_subtract (np_ones (ncols A)) x = Inr d \<and>
                   relative_error r = np_norm2 d / np_norm2 (np_ones (ncols A))))"
proof -
  from assms obtain start "end" x flag rel where
    cb: "call_backend e solver_lib A b w = (Inr (start, end, x, flag), w')" and
    rel: "relative_error_of (np_ones (ncols A)) x flag = Inr rel" and
    r: "relative_error r = rel" "umfpack_error r = (if flag then 1 else 0)"
    by (auto simp: solve_with_profiling_def Let_def split: prod.splits sum.splits)
  show ?thesis
  proof (cases flag)
    case True
    with rel r show ?thesis by (simp add: relative_error_of_def)
  next
    case False
    with call_backend_cases [OF cb] obtain x' where
      x: "x = Some x'" and out: "backend_outcome e solver_lib A b = Solved x'" by auto
    from rel False x have g: "get_relative_error (np_ones (ncols A)) x' = Inr rel"
      by (simp add: relative_error_of_def)
    then obtain d where d: "np_subtract (np_ones (ncols A)) x' = Inr d"
      and reld: "rel = np_norm2 d / np_norm2 (np_ones (ncols A))"
      by (auto simp: get_relative_error_def split: sum.splits)
    from get_relative_error_nonneg [OF g] have "0 \<le> rel" .
    with False r out d reld show ?thesis by auto
  qed
qed

theorem sentinel_iff_failure_flag_witness:
  "solve_with_profiling demo_env (tocsc eye3) (create_b (tocsc eye3)) ''eye3.mtx'' ''def_pos''
     ''superlu'' world0 =
   (Inr demo_result,
    world0\<lparr>time_calls := 2,
           events := [SpSolve ''superlu'' (tocsc eye3) (create_b (tocsc eye3))]\<rparr>) \<and>
   relative_error demo_result \<noteq> - 1 \<and> umfpack_error demo_result = 0 \<and>
   0 \<le> relative_error demo_result"
  using sentinel_iff_failure_flag [OF demo_solve_superlu] demo_solve_superlu
  by (simp add: demo_result_def)





subsection \<open>The platform tag\<close>

text \<open>
  Claim C2 at a Linux process. The environment \<open>demo_env\<close> reports the OS family
  \<open>Linux\<close>; \<open>log_results\<close> still tags the destination \<open>windows\<close>: after logging one
  result to a fresh directory the file with the tag \<open>ubuntu\<close> does not exist, and the
  file with the tag \<open>windows\<close> holds the header and the row.
\<close>

theorem log_results_tag_on_linux:
  "platform_system demo_env = ''Linux'' \<and> system_type demo_env = ''windows'' \<and>
   files (log_results demo_env [demo_result] ''python-result-log'' world0)
     ''./ubuntu-python-result-log.csv'' = None \<and>
   files (log_results demo_env [demo_result] ''python-result-log'' world0)
     ''./windows-python-result-log.csv''
     = Some (header_line @ ''eye3.mtx,superlu'' @ [CHR 0x0D, CHR 0x0A])"
  by (simp add: log_results_def system_type_def demo_env_def world0_def log_path_def is_file_def
        write_file_def append_file_def emit_def rows_text_def make_row_def demo_result_def
        Let_def)

subsection \<open>BenchmarkRunner: a run that completes\<close>













subsection \<open>BenchmarkRunner: an unknown backend name\<close>

lemma iteration_unknown_library:
  assumes "library \<notin> {''mkl'', ''umfpack'', ''superlu''}"
  shows "iteration e mtype library path w = (Inl (UnboundLocalError ''A''), w)"
  using assms by (simp add: iteration_def load_step_def)

lemma for_runs_unknown_library:
  assumes "library \<notin> {''mkl'', ''umfpack'', ''superlu''}"
  shows "for_runs e (path # paths) mtype library (Suc n) results w =
           (Inl (UnboundLocalError ''A''), w)"
  using iteration_unknown_library [OF assms] by simp

lemma load_step_valid_bound:
  assumes "library \<in> {''mkl'', ''umfpack'', ''superlu''}"
  shows "fst (load_step e library path w) \<noteq> Inr None"
  using assms by (auto simp: load_step_def split: prod.splits sum.splits)

lemma call_backend_valid_error:
  assumes "library \<in> {''mkl'', ''umfpack'', ''superlu''}"
    and "call_backend e library A b w = (Inl err, w')"
  shows "\<not> unknown_backend_error err"
  using assms
  by (auto simp: call_backend_def time_now_def Let_def unknown_backend_error_def
           split: if_splits solve_outcome.splits)

lemma relative_error_of_error:
  assumes "relative_error_of xe x flag = Inl err"
  shows "\<not> unknown_backend_error err"
  using assms
  by (auto simp: relative_error_of_def get_relative_error_def np_subtract_def
                 unknown_backend_error_def
           split: if_splits option.splits sum.splits)

lemma solve_valid_error:
  assumes lib: "library \<in> {''mkl'', ''umfpack'', ''superlu''}"
    and s: "solve_with_profiling e A b name mtype library w = (Inl err, w')"
  shows "\<not> unknown_backend_error err"
proof (cases "call_backend e library A b w")
  case (Pair res w1)
  show ?thesis
  proof (cases res)
    case (Inl err1)
    with Pair s have "err = err1" by (simp add: solve_with_profiling_def)
    with call_backend_valid_error [OF lib] Pair Inl show ?thesis by simp
  next
    case (Inr t)
    obtain start "end" x flag where t: "t = (start, end, x, flag)" by (cases t)
    with Pair Inr s have "relative_error_of (np_ones (ncols A)) x flag = Inl err"
      by (simp add: solve_with_profiling_def split: sum.splits)
    then show ?thesis by (rule relative_error_of_error)
  qed
qed

lemma load_matrix_error:
  assumes "fmt = ''csr'' \<or> fmt = ''csc''" and "load_matrix e path fmt w = (Inl err, w')"
  shows "\<not> unknown_backend_error err"
  using assms
  by (auto simp: load_matrix_def sio_mmread_def unknown_backend_error_def split: sum.splits)

lemma iteration_valid_error:
  assumes lib: "library \<in> {''mkl'', ''umfpack'', ''superlu''}"
    and it: "iteration e mtype library path w = (Inl err, w')"
  shows "\<not> unknown_backend_error err"
proof -
  define fmt where "fmt = (if library = ''mkl'' then ''csr'' else ''csc'')"
  have fmt: "fmt = ''csr'' \<or> fmt = ''csc''" by (simp add: fmt_def)
  show ?thesis
  proof (cases "load_matrix e path fmt w")
    case (Pair res w1)
    show ?thesis
    proof (cases res)
      case (Inl err1)
      with Pair lib it have "err = err1"
        by (auto simp: iteration_def load_step_def fmt_def split: if_splits)
      with load_matrix_error [OF fmt] Pair Inl show ?thesis by simp
    next
      case (Inr A)
      with Pair lib it have
        "solve_with_profiling e A (create_b A) (last (split_on CHR ''/'' path)) mtype library w1
           = (Inl err, w')"
        by (auto simp: iteration_def load_step_def fmt_def split: if_splits)
      then show ?thesis by (rule solve_valid_error [OF lib])
    qed
  qed
qed

lemma for_matrices_valid_error:
  assumes lib: "library \<in> {''mkl'', ''umfpack'', ''superlu''}"
  shows "for_matrices e mtype library paths results w = (Inl err, w') \<Longrightarrow>
         \<not> unknown_backend_error err"
proof (induction paths arbitrary: results w)
  case Nil
  then show ?case by simp
next
  case (Cons path paths)
  show ?case
  proof (cases "iteration e mtype library path w")
    case (Pair res w1)
    show ?thesis
    proof (cases res)
      case (Inl err1)
      with Pair Cons.prems have "err = err1" by simp
      with iteration_valid_error [OF lib] Pair Inl show ?thesis by simp
    next
      case (Inr r)
      with Pair Cons.prems
      have "for_matrices e mtype library paths (results @ [r]) w1 = (Inl err, w')" by simp
      then show ?thesis by (rule Cons.IH)
    qed
  qed
qed

lemma for_runs_valid_error:
  assumes lib: "library \<in> {''mkl'', ''umfpack'', ''superlu''}"
  shows "for_runs e paths mtype library n results w = (Inl err, w') \<Longrightarrow>
         \<not> unknown_backend_error err"
proof (induction n arbitrary: results w)
  case 0
  then show ?case by simp
next
  case (Suc n)
  show ?case
  proof (cases "for_matrices e mtype library paths results w")
    case (Pair res w1)
    show ?thesis
    proof (cases res)
      case (Inl err1)
      with Pair Suc.prems have "err = err1" by simp
      with for_matrices_valid_error [OF lib] Pair Inl show ?thesis by simp
    next
      case (Inr rs)
      with Pair Suc.prems
      have "for_runs e paths mtype library n rs w1 = (Inl err, w')" by simp
      then show ?thesis by (rule Suc.IH)
    qed
  qed
qed

text \<open>
  Claim C10, with the number of runs stated. For a backend name other than \<open>mkl\<close>,
  \<open>umfpack\<close> and \<open>superlu\<close>, a list of matrices that is not empty and at least one
  run, \<open>main\<close> raises \<open>UnboundLocalError\<close> for \<open>A\<close> in its first iteration, and the
  world is as it was: no file was read and no solve routine was called, so the check
  of the backend name in \<open>solve_with_profiling\<close> was not reached. For the three valid
  names the load step never leaves \<open>A\<close> unbound, and no exception that leaves \<open>main\<close>
  is the unbound \<open>A\<close> or the failure of that check.
\<close>

theorem main_unknown_library_unbound:
  "(library \<notin> {''mkl'', ''umfpack'', ''superlu''} \<longrightarrow> matrices \<noteq> [] \<longrightarrow> 1 \<le> num_runs \<longrightarrow>
      main e matrices mtype library num_runs w = (Inl (UnboundLocalError ''A''), w)) \<and>
   (library \<in> {''mkl'', ''umfpack'', ''superlu''} \<longrightarrow>
      fst (load_step e library path w) \<noteq> Inr None \<and>
      (\<forall>err. fst (main e matrices mtype library num_runs w) = Inl err \<longrightarrow>
             \<not> unknown_backend_error err))"
proof (intro conjI impI allI)
  assume lib: "library \<notin> {''mkl'', ''umfpack'', ''superlu''}"
    and ms: "matrices \<noteq> []" and n: "1 \<le> num_runs"
  from ms obtain path paths where m: "matrices = path # paths" by (cases matrices) auto
  from n obtain k where k: "nat num_runs = Suc k" by (cases "nat num_runs") auto
  show "main e matrices mtype library num_runs w = (Inl (UnboundLocalError ''A''), w)"
    unfolding main_def m k by (rule for_runs_unknown_library [OF lib])
next
  assume "library \<in> {''mkl'', ''umfpack'', ''superlu''}"
  then show "fst (load_step e library path w) \<noteq> Inr None" by (rule load_step_valid_bound)
next
  fix err
  assume lib: "library \<in> {''mkl'', ''umfpack'', ''superlu''}"
    and "fst (main e matrices mtype library num_runs w) = Inl err"
  then have "for_runs e matrices mtype library (nat num_runs) [] w =
      (Inl err, snd (for_runs e matrices mtype library (nat num_runs) [] w))"
    by (simp add: main_def prod_eq_iff)
  then show "\<not> unknown_backend_error err" by (rule for_runs_valid_error [OF lib])
qed

theorem main_unknown_library_unbound_witness:
  "''foo'' \<notin> {''mkl'', ''umfpack'', ''superlu''} \<and> [''data/eye3.mtx''] \<noteq> [] \<and> (1 :: int) \<le> 1 \<and>
   main demo_env [''data/eye3.mtx''] ''def_pos'' ''foo'' 1 world0
     = (Inl (UnboundLocalError ''A''), world0) \<and>
   ''umfpack'' \<in> {''mkl'', ''umfpack'', ''superlu''} \<and>
   fst (load_step demo_env ''umfpack'' ''data/two3.mtx'' world0) \<noteq> Inr None \<and>
   fst (main demo_env [''data/missing.mtx''] ''def_pos'' ''umfpack'' 1 world0)
     = Inl (LibraryError ''FileNotFoundError'') \<and>
   \<not> unknown_backend_error (LibraryError ''FileNotFoundError'')"
proof -
  have run: "fst (main demo_env [''data/missing.mtx''] ''def_pos'' ''umfpack'' 1 world0)
     = Inl (LibraryError ''FileNotFoundError'')"
    by (simp add: main_def iteration_def load_step_def load_matrix_def sio_mmread_def
          demo_env_def)
  from main_unknown_library_unbound
         [of "''foo''" "[''data/eye3.mtx'']" 1 demo_env "''def_pos''" world0]
       main_unknown_library_unbound
         [of "''umfpack''" "[''data/missing.mtx'']" 1 demo_env "''def_pos''" world0
             "''data/two3.mtx''"]
       run
  show ?thesis by simp
qed

text \<open>
  Claim C10 as stated fails when no run is asked for: with an unknown backend name and
  a list of one matrix, \<open>main\<close> with zero runs returns the empty list and raises
  nothing.
\<close>

theorem main_unknown_library_no_runs:
  "main demo_env [''data/eye3.mtx''] ''def_pos'' ''foo'' 0 world0 = (Inr [], world0)"
  by (simp add: main_def)

subsection \<open>ResultLogger: the header\<close>

lemma log_results_nonempty:
  assumes "results \<noteq> []"
  shows "files (log_results e results filename w) (log_path (system_type e) filename) =
           Some ((case files w (log_path (system_type e) filename) of
                    None \<Rightarrow> header_line
                  | Some old \<Rightarrow> old) @ rows_text e (system_type e) results)"
  using assms
  by (auto simp: log_results_def Let_def is_file_def write_file_def append_file_def emit_def)

lemma rows_text_Nil: "rows_text e system [] = []"
  by (simp add: rows_text_def)

text \<open>
  Claim C7, for calls that are not both on an empty sequence. After two calls of
  \<open>log_results\<close> on a destination that did not exist, of which at least one has results
  to log, the file holds the header line once, then the rows of the first call, then the
  rows of the second. On a destination that exists, a call leaves what the file holds
  in place and puts its rows after it.
\<close>

theorem log_results_header_once:
  "(files w (log_path (system_type e) filename) = None \<longrightarrow> r1 \<noteq> [] \<or> r2 \<noteq> [] \<longrightarrow>
      files (log_results e r2 filename (log_results e r1 filename w))
        (log_path (system_type e) filename)
      = Some (header_line @ rows_text e (system_type e) r1 @ rows_text e (system_type e) r2)) \<and>
   (files w (log_path (system_type e) filename) = Some old \<longrightarrow>
      files (log_results e r filename w) (log_path (system_type e) filename)
      = Some (old @ rows_text e (system_type e) r))"
proof (intro conjI impI)
  assume fresh: "files w (log_path (system_type e) filename) = None"
    and some: "r1 \<noteq> [] \<or> r2 \<noteq> []"
  show "files (log_results e r2 filename (log_results e r1 filename w))
          (log_path (system_type e) filename)
        = Some (header_line @ rows_text e (system_type e) r1 @ rows_text e (system_type e) r2)"
  proof (cases "r1 = []")
    case True
    with some have r2: "r2 \<noteq> []" by simp
    from True have "log_results e r1 filename w = w" by (simp add: log_results_def)
    with log_results_nonempty [OF r2, of e filename w] fresh True show ?thesis
      by (simp add: rows_text_Nil)
  next
    case False
    from log_results_nonempty [OF False, of e filename w] fresh
    have first: "files (log_results e r1 filename w) (log_path (system_type e) filename)
        = Some (header_line @ rows_text e (system_type e) r1)" by simp
    show ?thesis
    proof (cases "r2 = []")
      case True
      with first show ?thesis by (simp add: log_results_def rows_text_Nil)
    next
      case r2: False
      from log_results_nonempty [OF r2, of e filename "log_results e r1 filename w"] first
      show ?thesis by simp
    qed
  qed
next
  assume old: "files w (log_path (system_type e) filename) = Some old"
  show "files (log_results e r filename w) (log_path (system_type e) filename)
        = Some (old @ rows_text e (system_type e) r)"
  proof (cases "r = []")
    case True
    with old show ?thesis by (simp add: log_results_def rows_text_Nil)
  next
    case False
    from log_results_nonempty [OF False, of e filename w] old show ?thesis by simp
  qed
qed

theorem log_results_header_once_witness:
  "files world0 (log_path (system_type demo_env) ''python-result-log'') = None \<and>
   [demo_result] \<noteq> [] \<and>
   files (log_results demo_env [demo_result] ''python-result-log''
            (log_results demo_env [demo_result] ''python-result-log'' world0))
     (log_path (system_type demo_env) ''python-result-log'')
   = Some (header_line @ rows_text demo_env (system_type demo_env) [demo_result]
             @ rows_text demo_env (system_type demo_env) [demo_result]) \<and>
   files (log_results demo_env [demo_result] ''python-result-log'' world0)
     (log_path (system_type demo_env) ''python-result-log'')
   = Some (header_line @ rows_text demo_env (system_type demo_env) [demo_result]) \<and>
   files (log_results demo_env [demo_result] ''python-result-log''
            (log_results demo_env [demo_result] ''python-result-log'' world0))
     (log_path (system_type demo_env) ''python-result-log'')
   = Some ((header_line @ rows_text demo_env (system_type demo_env) [demo_result])
             @ rows_text demo_env (system_type demo_env) [demo_result])"
proof -
  have fresh: "files world0 (log_path (system_type demo_env) ''python-result-log'') = None"
    by (simp add: world0_def)
  have one: "files (log_results demo_env [demo_result] ''python-result-log'' world0)
     (log_path (system_type demo_env) ''python-result-log'')
     = Some (header_line @ rows_text demo_env (system_type demo_env) [demo_result])"
    using log_results_nonempty [of "[demo_result]" demo_env "''python-result-log''" world0] fresh
    by simp
  from log_results_header_once
         [of world0 demo_env "''python-result-log''" "[demo_result]" "[demo_result]"]
       log_results_header_once
         [of "log_results demo_env [demo_result] ''python-result-log'' world0" demo_env
             "''python-result-log''" _ _
             "header_line @ rows_text demo_env (system_type demo_env) [demo_result]"
             "[demo_result]"]
       fresh one
  show ?thesis by simp
qed

text \<open>
  Claim C7 as stated fails when both calls are on an empty sequence: the destination
  did not exist before and does not exist after, so there is no file with a header
  line.
\<close>

theorem log_results_twice_empty_no_file:
  "files world0 (log_path (system_type demo_env) ''python-result-log'') = None \<and>
   files (log_results demo_env [] ''python-result-log''
            (log_results demo_env [] ''python-result-log'' world0))
     (log_path (system_type demo_env) ''python-result-log'') = None"
  by (simp add: log_results_def world0_def)

end
